theory Spec2Isabelle
  imports Complex_Main
begin

section \<open>Python strings\<close>

text \<open>
  A Python \<open>str\<close> is a sequence of Unicode code points, and \<open>len\<close>, indexing, \<open>re\<close> and
  \<open>str.strip\<close> all work per code point. A string is therefore modelled as the list of its
  code points, each a natural number; \<open>ustr\<close> reads an ASCII literal as such a list.
\<close>

type_synonym pystr = "nat list"

definition ustr :: "string \<Rightarrow> pystr" where
  "ustr s = map of_char s"

definition SPACE :: nat where "SPACE = 0x20"
definition DOT :: nat where "DOT = 0x2E"
definition COMMA :: nat where "COMMA = 0x2C"
definition SLASH :: nat where "SLASH = 0x2F"

text \<open>
  The characters that \<open>\s\<close> matches in a \<open>str\<close> pattern and that \<open>str.strip()\<close> removes:
  the code points for which \<open>str.isspace\<close> holds (CPython 3).
\<close>

definition isspace :: "nat \<Rightarrow> bool" where
  "isspace c \<longleftrightarrow>
     (0x09 \<le> c \<and> c \<le> 0x0D) \<or> (0x1C \<le> c \<and> c \<le> 0x20) \<or> c = 0x85 \<or> c = 0xA0 \<or>
     c = 0x1680 \<or> (0x2000 \<le> c \<and> c \<le> 0x200A) \<or> c = 0x2028 \<or> c = 0x2029 \<or>
     c = 0x202F \<or> c = 0x205F \<or> c = 0x3000"

text \<open>
  \<open>sep.join(xs)\<close>: the items in order, with \<open>sep\<close> put before every item but the first.
\<close>

definition str_join :: "pystr \<Rightarrow> pystr list \<Rightarrow> pystr" where
  "str_join sep xs =
     (case xs of [] \<Rightarrow> [] | x # rest \<Rightarrow> foldl (\<lambda>acc y. acc @ sep @ y) x rest)"

text \<open>
  \<open>s.split(sep)\<close> for a one-character separator: the pieces between the occurrences of
  \<open>sep\<close>, empty pieces kept, so that \<open>''.split(',')\<close> is \<open>['']\<close>.
\<close>

fun str_split :: "nat \<Rightarrow> pystr \<Rightarrow> pystr list" where
  "str_split sep [] = [[]]"
| "str_split sep (c # cs) =
     (if c = sep then [] # str_split sep cs
      else (case str_split sep cs of [] \<Rightarrow> [[c]] | piece # pieces \<Rightarrow> (c # piece) # pieces))"

text \<open>
  \<open>s.rsplit(sep, 1)\<close> for a one-character separator: one split at the last occurrence of
  \<open>sep\<close>, and the string itself as the only item when \<open>sep\<close> does not occur.
\<close>

definition rsplit1 :: "nat \<Rightarrow> pystr \<Rightarrow> pystr list" where
  "rsplit1 sep s =
     (if sep \<in> set s
      then [rev (tl (dropWhile (\<lambda>c. c \<noteq> sep) (rev s))), rev (takeWhile (\<lambda>c. c \<noteq> sep) (rev s))]
      else [s])"

text \<open>The exceptions that the modelled code can raise or let through.\<close>

datatype exn =
    IndexError
  | FileNotFoundError pystr
  | OSError pystr
  | CvError pystr
  | EngineError pystr

text \<open>\<open>xs[i]\<close> for a non-negative index: out of range raises.\<close>

definition getitem :: "'a list \<Rightarrow> nat \<Rightarrow> exn + 'a" where
  "getitem xs i = (if i < length xs then Inr (xs ! i) else Inl IndexError)"

text \<open>\<open>os.path.join(a, b)\<close> on a POSIX host.\<close>

definition path_join :: "pystr \<Rightarrow> pystr \<Rightarrow> pystr" where
  "path_join a b =
     (if b \<noteq> [] \<and> hd b = SLASH then b
      else if a = [] \<or> last a = SLASH then a @ b
      else a @ [SLASH] @ b)"

section \<open>postprocess.py\<close>

text \<open>The character class \<open>[^\x20-\x7E]\<close> matches exactly the code points that are not printable.\<close>

definition printable :: "nat \<Rightarrow> bool" where
  "printable c \<longleftrightarrow> 0x20 \<le> c \<and> c \<le> 0x7E"

text \<open>\<open>re.sub(r'[^\x20-\x7E]', '', text)\<close>: every match, a single character, is deleted.\<close>

definition remove_non_printable :: "pystr \<Rightarrow> pystr" where
  "remove_non_printable text = filter printable text"

text \<open>
  \<open>re.sub(r'\s+', ' ', text)\<close>: scanning from the left, a whitespace character starts a match,
  the greedy \<open>+\<close> extends it over the whole run, and the run is replaced by one space.
\<close>

function collapse_whitespace :: "pystr \<Rightarrow> pystr" where
  "collapse_whitespace [] = []"
| "collapse_whitespace (c # cs) =
     (if isspace c then SPACE # collapse_whitespace (dropWhile isspace cs)
      else c # collapse_whitespace cs)"
  by pat_completeness auto
termination
  by (relation "measure length") (auto simp: le_imp_less_Suc length_dropWhile_le)

text \<open>\<open>text.strip()\<close>: leading and trailing whitespace is removed.\<close>

definition strip :: "pystr \<Rightarrow> pystr" where
  "strip text = rev (dropWhile isspace (rev (dropWhile isspace text)))"

text \<open>The three statements of \<open>clean_text\<close>, in the order of the source.\<close>

definition clean_text :: "pystr \<Rightarrow> pystr" where
  "clean_text text =
     (let text1 = remove_non_printable text;
          text2 = collapse_whitespace text1;
          text3 = strip text2
      in text3)"

section \<open>The libraries, the operating system and the outside world\<close>

text \<open>
  The calls that leave the process are recorded, oldest first, so that "no OCR call occurs"
  and "is never preprocessed" can be stated.
\<close>

type_synonym bytes = "nat list"
type_synonym image = "nat list list"
type_synonym detection = "(real \<times> real) list \<times> pystr \<times> real"
type_synonym filesystem = "pystr \<rightharpoonup> bytes"

datatype event =
    FileSave pystr
  | Imread pystr
  | Readtext image
  | OsRemove pystr

datatype adaptive_method = ADAPTIVE_THRESH_MEAN_C | ADAPTIVE_THRESH_GAUSSIAN_C

datatype threshold_type = THRESH_BINARY | THRESH_BINARY_INV

text \<open>
  What the code calls and does not define is a parameter of the model:
  \<^item> \<open>str_lower\<close> is \<open>str.lower\<close>, the Unicode lower-casing of a string;
  \<^item> \<open>secure_filename\<close> is \<open>werkzeug.utils.secure_filename\<close>;
  \<^item> \<open>imdecode\<close> is the decoder behind \<open>cv2.imread(path, cv2.IMREAD_GRAYSCALE)\<close>, applied to
    the bytes of a file: a grayscale matrix, \<open>None\<close> when the bytes are not an image it can
    decode, or the message of a \<open>cv2.error\<close> (an image larger than OpenCV accepts);
  \<^item> \<open>GaussianBlur\<close> is \<open>cv2.GaussianBlur(src, ksize, sigmaX)\<close> and \<open>adaptiveThreshold\<close> is
    \<open>cv2.adaptiveThreshold(src, maxValue, adaptiveMethod, thresholdType, blockSize, C)\<close>:
    the filtered matrix, or the message of a \<open>cv2.error\<close>;
  \<^item> \<open>readtext\<close> is \<open>reader.readtext\<close> of the process-wide EasyOCR reader: a list of
    detections (region, text, confidence), or an exception raised inside the engine;
  \<^item> \<open>save_fault\<close> is the operating system refusing to write a file (the name is too long,
    the path is a directory, the directory is gone, the disk is full): the message of the
    \<open>OSError\<close> and the file system as the failed write leaves it, or \<open>None\<close> when the write
    goes through;
  \<^item> \<open>remove_fault\<close> is the operating system refusing to unlink an existing file;
  \<^item> \<open>others\<close> is what the other requests and processes have done to the file system by
    the time of the next access, given the calls this request has made so far. Two requests
    with the same sanitized filename share one path.
\<close>

record externals =
  str_lower :: "pystr \<Rightarrow> pystr"
  secure_filename :: "pystr \<Rightarrow> pystr"
  imdecode :: "bytes \<Rightarrow> pystr + image option"
  GaussianBlur :: "image \<Rightarrow> nat \<times> nat \<Rightarrow> real \<Rightarrow> pystr + image"
  adaptiveThreshold ::
    "image \<Rightarrow> nat \<Rightarrow> adaptive_method \<Rightarrow> threshold_type \<Rightarrow> nat \<Rightarrow> real \<Rightarrow> pystr + image"
  readtext :: "image \<Rightarrow> exn + detection list"
  save_fault :: "filesystem \<Rightarrow> pystr \<Rightarrow> bytes \<Rightarrow> (pystr \<times> filesystem) option"
  remove_fault :: "filesystem \<Rightarrow> pystr \<Rightarrow> pystr option"
  others :: "event list \<Rightarrow> filesystem \<Rightarrow> filesystem"

text \<open>The world as one request sees it: the file system and the calls made so far.\<close>

record world =
  fs :: filesystem
  calls :: "event list"

text \<open>The file system as the next access finds it.\<close>

definition observe :: "externals \<Rightarrow> world \<Rightarrow> world" where
  "observe X w = w\<lparr>fs := others X (calls w) (fs w)\<rparr>"

text \<open>
  \<open>cv2.imread\<close> returns \<open>None\<close> for a missing file and for bytes it cannot decode, and
  raises \<open>cv2.error\<close> when the decoder does.
\<close>

definition imread :: "externals \<Rightarrow> pystr \<Rightarrow> world \<Rightarrow> (exn + image option) \<times> world" where
  "imread X path w =
     (let w0 = observe X w
      in ((case fs w0 path of
             None \<Rightarrow> Inr None
           | Some b \<Rightarrow> (case imdecode X b of Inl msg \<Rightarrow> Inl (CvError msg) | Inr img \<Rightarrow> Inr img)),
          w0\<lparr>calls := calls w0 @ [Imread path]\<rparr>))"

text \<open>\<open>os.remove\<close> raises for a path that does not exist, and when the unlink is refused.\<close>

definition os_remove :: "externals \<Rightarrow> pystr \<Rightarrow> world \<Rightarrow> (exn + unit) \<times> world" where
  "os_remove X path w =
     (let w0 = observe X w;
          w1 = w0\<lparr>calls := calls w0 @ [OsRemove path]\<rparr>
      in case fs w0 path of
           None \<Rightarrow> (Inl (FileNotFoundError path), w1)
         | Some b \<Rightarrow>
             (case remove_fault X (fs w0) path of
                Some msg \<Rightarrow> (Inl (OSError msg), w1)
              | None \<Rightarrow> (Inr (), w1\<lparr>fs := (fs w0)(path := None)\<rparr>)))"

section \<open>preprocess.py\<close>

definition preprocess_image :: "externals \<Rightarrow> pystr \<Rightarrow> world \<Rightarrow> (exn + image) \<times> world" where
  "preprocess_image X image_path w =
     (case imread X image_path w of
        (Inl e, w1) \<Rightarrow> (Inl e, w1)
      | (Inr None, w1) \<Rightarrow>
          (Inl (FileNotFoundError (ustr ''Image not found: '' @ image_path)), w1)
      | (Inr (Some img), w1) \<Rightarrow>
          (case GaussianBlur X img (5, 5) 0 of
             Inl msg \<Rightarrow> (Inl (CvError msg), w1)
           | Inr img_blur \<Rightarrow>
               (case adaptiveThreshold X img_blur 255 ADAPTIVE_THRESH_GAUSSIAN_C THRESH_BINARY 11 2 of
                  Inl msg \<Rightarrow> (Inl (CvError msg), w1)
                | Inr img_thresh \<Rightarrow> (Inr img_thresh, w1))))"

section \<open>reader.py\<close>

text \<open>\<open>" ".join([text[1] for text in result])\<close>: item 1 of a detection is its text.\<close>

definition raw_text :: "detection list \<Rightarrow> pystr" where
  "raw_text result = str_join [SPACE] (map (\<lambda>text. fst (snd text)) result)"

definition extract_text_from_image :: "externals \<Rightarrow> pystr \<Rightarrow> world \<Rightarrow> (exn + pystr) \<times> world" where
  "extract_text_from_image X image_path w =
     (case preprocess_image X image_path w of
        (Inl e, w1) \<Rightarrow> (Inl e, w1)
      | (Inr preprocessed_img, w1) \<Rightarrow>
          (let w2 = w1\<lparr>calls := calls w1 @ [Readtext preprocessed_img]\<rparr>
           in case readtext X preprocessed_img of
                Inl e \<Rightarrow> (Inl e, w2)
              | Inr result \<Rightarrow>
                  (let cleaned_text = clean_text (raw_text result)
                   in (Inr cleaned_text, w2))))"

section \<open>app.py\<close>

subsection \<open>Configuration\<close>

type_synonym environ = "pystr \<rightharpoonup> pystr"

definition getenv :: "environ \<Rightarrow> pystr \<Rightarrow> pystr \<Rightarrow> pystr" where
  "getenv env key dflt = (case env key of None \<Rightarrow> dflt | Some v \<Rightarrow> v)"

record config =
  UPLOAD_FOLDER :: pystr
  ALLOWED_EXTENSIONS :: "pystr set"

definition app_config :: "environ \<Rightarrow> config" where
  "app_config env =
     \<lparr>UPLOAD_FOLDER = getenv env (ustr ''UPLOAD_FOLDER'') (ustr ''app/uploads''),
      ALLOWED_EXTENSIONS =
        set (str_split COMMA (getenv env (ustr ''ALLOWED_EXTENSIONS'') (ustr ''jpg,jpeg,png'')))\<rparr>"

subsection \<open>allowed_file\<close>

text \<open>
  \<open>'.' in filename and filename.rsplit('.', 1)[1].lower() in app.config['ALLOWED_EXTENSIONS']\<close>:
  \<open>and\<close> evaluates its right operand only when the left one is true.
\<close>

definition allowed_file :: "externals \<Rightarrow> config \<Rightarrow> pystr \<Rightarrow> exn + bool" where
  "allowed_file X cfg fname =
     (if DOT \<notin> set fname then Inr False
      else case getitem (rsplit1 DOT fname) 1 of
             Inl e \<Rightarrow> Inl e
           | Inr ext \<Rightarrow> Inr (str_lower X ext \<in> ALLOWED_EXTENSIONS cfg))"

subsection \<open>The request handler\<close>

record file_storage =
  filename :: pystr
  content :: bytes

record request =
  files :: "pystr \<rightharpoonup> file_storage"

text \<open>A response is the JSON object of \<open>jsonify\<close>, as its key-value pairs, and the status.\<close>

type_synonym json = "(pystr \<times> pystr) list"
type_synonym response = "json \<times> nat"

text \<open>
  \<open>file.save(dst)\<close> writes the content of the upload to \<open>dst\<close>, or raises \<open>OSError\<close>.
\<close>

definition save :: "externals \<Rightarrow> file_storage \<Rightarrow> pystr \<Rightarrow> world \<Rightarrow> (exn + unit) \<times> world" where
  "save X file dst w =
     (let w0 = observe X w;
          w1 = w0\<lparr>calls := calls w0 @ [FileSave dst]\<rparr>
      in case save_fault X (fs w0) dst (content file) of
           Some (msg, left) \<Rightarrow> (Inl (OSError msg), w1\<lparr>fs := left\<rparr>)
         | None \<Rightarrow> (Inr (), w1\<lparr>fs := (fs w0)(dst \<mapsto> content file)\<rparr>))"

text \<open>
  The handler of \<open>POST /extract-text\<close>. It returns a response, or lets an exception
  through (\<open>Inl\<close>): the source has no \<open>try\<close>.
\<close>

definition extract_text :: "externals \<Rightarrow> config \<Rightarrow> request \<Rightarrow> world \<Rightarrow> (exn + response) \<times> world" where
  "extract_text X cfg req w =
     (case files req (ustr ''file'') of
        None \<Rightarrow> (Inr ([(ustr ''error'', ustr ''No file part in request'')], 400), w)
      | Some file \<Rightarrow>
          if filename file = [] then
            (Inr ([(ustr ''error'', ustr ''No selected file'')], 400), w)
          else
            (case allowed_file X cfg (filename file) of
               Inl e \<Rightarrow> (Inl e, w)
             | Inr allowed \<Rightarrow>
                 if \<not> allowed then
                   (Inr ([(ustr ''error'', ustr ''Unsupported file type'')], 400), w)
                 else
                   (let fname = secure_filename X (filename file);
                        file_path = path_join (UPLOAD_FOLDER cfg) fname
                    in case save X file file_path w of
                         (Inl e, w1) \<Rightarrow> (Inl e, w1)
                       | (Inr saved, w1) \<Rightarrow>
                           (case extract_text_from_image X file_path w1 of
                              (Inl e, w2) \<Rightarrow> (Inl e, w2)
                            | (Inr extracted_text, w2) \<Rightarrow>
                                (case os_remove X file_path w2 of
                                   (Inl e, w3) \<Rightarrow> (Inl e, w3)
                                 | (Inr removed, w3) \<Rightarrow>
                                     (Inr ([(ustr ''extracted_text'', extracted_text)], 200), w3))))))"

section \<open>Auxiliary notions\<close>

text \<open>
  The Normalizer's input as the specification words it: the transcribed strings in detection
  order, two neighbours separated by a single space.
\<close>

fun joined_by_single_spaces :: "pystr list \<Rightarrow> pystr" where
  "joined_by_single_spaces [] = []"
| "joined_by_single_spaces [t] = t"
| "joined_by_single_spaces (t # u # ts) = t @ [SPACE] @ joined_by_single_spaces (u # ts)"





text \<open>
  A string in which every whitespace character is a space that no whitespace follows: the
  strings that \<open>collapse_whitespace\<close> leaves as they are.
\<close>

fun single_spaced :: "pystr \<Rightarrow> bool" where
  "single_spaced [] = True"
| "single_spaced (c # cs) =
     ((if isspace c then c = SPACE \<and> (cs = [] \<or> \<not> isspace (hd cs)) else True) \<and>
      single_spaced cs)"

section \<open>Concrete libraries, requests and worlds\<close>

text \<open>
  Instances of the parameters on which the model is evaluated. \<open>ascii_lower\<close> is
  \<open>str.lower\<close> on ASCII strings; \<open>keep_safe_chars\<close> is \<open>secure_filename\<close> on names made
  of ASCII letters, digits, \<open>_\<close>, \<open>-\<close> and inner dots; \<open>toy_decoder\<close> reads a one-row
  image format, the byte \<open>0x50\<close> followed by the pixels; \<open>toy_threshold\<close> compares with a
  fixed level instead of the neighbourhood. In \<open>working_libs\<close> a write fails only on a path
  that names a directory, and nobody else touches the file system.
\<close>

definition ascii_lower :: "pystr \<Rightarrow> pystr" where
  "ascii_lower s = map (\<lambda>c. if 0x41 \<le> c \<and> c \<le> 0x5A then c + 0x20 else c) s"

definition keep_safe_chars :: "pystr \<Rightarrow> pystr" where
  "keep_safe_chars s =
     filter (\<lambda>c. (0x30 \<le> c \<and> c \<le> 0x39) \<or> (0x41 \<le> c \<and> c \<le> 0x5A) \<or> (0x61 \<le> c \<and> c \<le> 0x7A) \<or>
                 c = 0x5F \<or> c = 0x2D \<or> c = 0x2E) s"

definition toy_decoder :: "bytes \<Rightarrow> pystr + image option" where
  "toy_decoder b =
     (case b of
        [] \<Rightarrow> Inr None
      | m # pixels \<Rightarrow>
          if m = 0x50 \<and> pixels \<noteq> [] \<and> list_all (\<lambda>p. p \<le> 255) pixels then Inr (Some [pixels])
          else Inr None)"

definition toy_blur :: "image \<Rightarrow> nat \<times> nat \<Rightarrow> real \<Rightarrow> pystr + image" where
  "toy_blur img ksize sigma =
     (if odd (fst ksize) \<and> odd (snd ksize) then Inr img else Inl (ustr ''ksize''))"

definition toy_threshold ::
    "image \<Rightarrow> nat \<Rightarrow> adaptive_method \<Rightarrow> threshold_type \<Rightarrow> nat \<Rightarrow> real \<Rightarrow> pystr + image" where
  "toy_threshold img maxv method ttype blk c =
     (if odd blk \<and> 1 < blk then Inr (map (map (\<lambda>p. if 127 < p then maxv else 0)) img)
      else Inl (ustr ''blockSize''))"

definition hello_world :: "detection list" where
  "hello_world =
     [([(0, 0), (50, 0), (50, 20), (0, 20)], ustr ''HELLO'', 98 / 100),
      ([(60, 0), (110, 0), (110, 20), (60, 20)], ustr ''WORLD'', 95 / 100)]"

definition working_libs :: externals where
  "working_libs =
     \<lparr>str_lower = ascii_lower,
      secure_filename = keep_safe_chars,
      imdecode = toy_decoder,
      GaussianBlur = toy_blur,
      adaptiveThreshold = toy_threshold,
      readtext = (\<lambda>img. Inr hello_world),
      save_fault = (\<lambda>files path data.
        if path = [] \<or> last path = SLASH then Some (ustr ''Is a directory'', files) else None),
      remove_fault = (\<lambda>files path. None),
      others = (\<lambda>made files. files)\<rparr>"

definition failing_engine :: externals where
  "failing_engine = working_libs\<lparr>readtext := (\<lambda>img. Inl (EngineError (ustr ''CUDA out of memory'')))\<rparr>"

definition default_config :: config where
  "default_config = app_config Map.empty"

definition upper_case_config :: config where
  "upper_case_config = app_config [ustr ''ALLOWED_EXTENSIONS'' \<mapsto> ustr ''JPG,PNG'']"

definition empty_world :: world where
  "empty_world = \<lparr>fs = Map.empty, calls = []\<rparr>"

definition upload :: "string \<Rightarrow> bytes \<Rightarrow> request" where
  "upload name data = \<lparr>files = [ustr ''file'' \<mapsto> \<lparr>filename = ustr name, content = data\<rparr>]\<rparr>"

definition no_file_request :: request where
  "no_file_request = \<lparr>files = Map.empty\<rparr>"

section \<open>The Normalizer\<close>

lemma isspace_SPACE: "isspace SPACE"
  by (simp add: isspace_def SPACE_def)

lemma printable_SPACE: "printable SPACE"
  by (simp add: printable_def SPACE_def)

lemma set_collapse_whitespace: "set (collapse_whitespace xs) \<subseteq> insert SPACE (set xs)"
proof (induction xs rule: collapse_whitespace.induct)
  case 1
  show ?case by simp
next
  case (2 c cs)
  show ?case
  proof (cases "isspace c")
    case True
    with 2 have "set (collapse_whitespace (dropWhile isspace cs)) \<subseteq> insert SPACE (set (dropWhile isspace cs))"
      by simp
    moreover have "set (dropWhile isspace cs) \<subseteq> set cs"
      by (auto dest: set_dropWhileD)
    ultimately show ?thesis using True by auto
  next
    case False
    with 2 show ?thesis by auto
  qed
qed

lemma collapse_whitespace_Nil: "collapse_whitespace xs = [] \<longleftrightarrow> xs = []"
  by (cases xs) simp_all

lemma hd_collapse_whitespace: "\<not> isspace (hd xs) \<Longrightarrow> hd (collapse_whitespace xs) = hd xs"
  by (cases xs) simp_all

lemma single_spaced_collapse: "single_spaced (collapse_whitespace xs)"
proof (induction xs rule: collapse_whitespace.induct)
  case 1
  show ?case by simp
next
  case (2 c cs)
  show ?case
  proof (cases "isspace c")
    case True
    let ?r = "dropWhile isspace cs"
    have "?r = [] \<or> \<not> isspace (hd ?r)"
      using hd_dropWhile [of isspace cs] by blast
    then have "collapse_whitespace ?r = [] \<or> \<not> isspace (hd (collapse_whitespace ?r))"
      by (auto simp: collapse_whitespace_Nil hd_collapse_whitespace)
    with 2 True show ?thesis by (simp add: isspace_SPACE)
  next
    case False
    with 2 show ?thesis by simp
  qed
qed

lemma collapse_single_spaced: "single_spaced xs \<Longrightarrow> collapse_whitespace xs = xs"
proof (induction xs)
  case Nil
  show ?case by simp
next
  case (Cons c cs)
  then have ss: "single_spaced cs" and IH: "collapse_whitespace cs = cs" by simp_all
  show ?case
  proof (cases "isspace c")
    case True
    with Cons.prems have c: "c = SPACE" and h: "cs = [] \<or> \<not> isspace (hd cs)" by simp_all
    from h have "dropWhile isspace cs = cs" by (simp add: dropWhile_eq_self_iff)
    with True c IH show ?thesis by simp
  next
    case False
    with IH show ?thesis by simp
  qed
qed

lemma single_spaced_dropWhile: "single_spaced xs \<Longrightarrow> single_spaced (dropWhile P xs)"
  by (induction xs) simp_all

lemma single_spaced_prefix: "single_spaced (xs @ ys) \<Longrightarrow> single_spaced xs"
proof (induction xs)
  case Nil
  show ?case by simp
next
  case (Cons c cs)
  then show ?case by (cases cs) (auto split: if_splits)
qed

lemma rstrip_prefix: "rev (dropWhile P (rev xs)) @ rev (takeWhile P (rev xs)) = xs"
proof -
  have "rev (takeWhile P (rev xs) @ dropWhile P (rev xs)) = xs" by simp
  then show ?thesis by (simp only: rev_append)
qed

lemma single_spaced_strip: "single_spaced xs \<Longrightarrow> single_spaced (strip xs)"
proof -
  assume "single_spaced xs"
  then have a: "single_spaced (dropWhile isspace xs)" by (rule single_spaced_dropWhile)
  have "single_spaced (rev (dropWhile isspace (rev (dropWhile isspace xs))) @ rev (takeWhile isspace (rev (dropWhile isspace xs))))"
    using a by (simp only: rstrip_prefix)
  then show ?thesis unfolding strip_def by (rule single_spaced_prefix)
qed

lemma strip_strip: "strip (strip xs) = strip xs"
proof -
  let ?ys = "dropWhile isspace xs"
  let ?zs = "rev (dropWhile isspace (rev ?ys))"
  have ys: "?ys = [] \<or> \<not> isspace (hd ?ys)"
    using hd_dropWhile [of isspace xs] by blast
  have dec: "?zs @ rev (takeWhile isspace (rev ?ys)) = ?ys" by (rule rstrip_prefix)
  have "?zs = [] \<or> \<not> isspace (hd ?zs)"
  proof (cases "?zs = []")
    case True
    then show ?thesis by simp
  next
    case False
    then have "hd ?ys = hd ?zs" using dec by (metis hd_append2)
    moreover have "?ys \<noteq> []" using False dec by (metis append_is_Nil_conv)
    ultimately show ?thesis using ys by metis
  qed
  then have "dropWhile isspace ?zs = ?zs" by (simp add: dropWhile_eq_self_iff)
  then have "strip ?zs = rev (dropWhile isspace (dropWhile isspace (rev ?ys)))"
    by (simp add: strip_def)
  also have "\<dots> = ?zs" by simp
  finally show ?thesis by (simp add: strip_def)
qed

lemma set_strip: "set (strip xs) \<subseteq> set xs"
  unfolding strip_def by (auto dest!: set_dropWhileD)

lemma clean_text_printable: "c \<in> set (clean_text s) \<Longrightarrow> printable c"
proof -
  assume "c \<in> set (clean_text s)"
  then have "c \<in> set (collapse_whitespace (filter printable s))"
    using set_strip by (auto simp: clean_text_def remove_non_printable_def)
  then have "c = SPACE \<or> c \<in> set (filter printable s)"
    using set_collapse_whitespace by blast
  then show ?thesis by (auto simp: printable_SPACE)
qed

text \<open>
  Claim C8. The Normalizer is idempotent: for every input string \<open>s\<close>, cleaning the cleaned
  string gives the cleaned string again, \<open>clean_text (clean_text s) = clean_text s\<close>.
\<close>

theorem clean_text_idempotent: "clean_text (clean_text s) = clean_text s"
proof -
  let ?r = "clean_text s"
  have r: "?r = strip (collapse_whitespace (remove_non_printable s))"
    by (simp add: clean_text_def)
  have 1: "remove_non_printable ?r = ?r"
    unfolding remove_non_printable_def by (rule filter_True) (simp add: clean_text_printable)
  have "single_spaced ?r"
    unfolding r by (rule single_spaced_strip) (rule single_spaced_collapse)
  then have 2: "collapse_whitespace ?r = ?r" by (rule collapse_single_spaced)
  have 3: "strip ?r = ?r" unfolding r by (rule strip_strip)
  have "clean_text ?r = strip (collapse_whitespace (remove_non_printable ?r))"
    by (simp add: clean_text_def)
  also have "\<dots> = ?r" by (simp only: 1 2 3)
  finally show ?thesis .
qed

text \<open>
  Claim C2, at the input \<open>"a\tb"\<close>. The claim asks for \<open>"a b"\<close>, the two words separated by
  a single space. The source deletes the tab with the non-printable characters before the
  whitespace pattern runs, so the pattern never sees it and the words are fused. The same
  happens to a newline between \<open>hello\<close> and \<open>world\<close>.
\<close>

theorem clean_text_fuses_words_around_tab:
  "clean_text (ustr ''a'' @ [0x09] @ ustr ''b'') = ustr ''ab'' \<and>
   clean_text (ustr ''hello'' @ [0x0A] @ ustr ''world'') = ustr ''helloworld''"
  by (simp add: clean_text_def remove_non_printable_def printable_def strip_def isspace_def ustr_def)

section \<open>Evaluation\<close>

text \<open>The definitions that the simplifier unfolds to run the model on a concrete input.\<close>

lemmas demo_defs = working_libs_def default_config_def
  empty_world_def upload_def app_config_def getenv_def ustr_def
  ascii_lower_def keep_safe_chars_def toy_decoder_def toy_blur_def toy_threshold_def hello_world_def
  SPACE_def DOT_def COMMA_def SLASH_def

lemmas model_defs = extract_text_def allowed_file_def rsplit1_def getitem_def path_join_def save_def
  observe_def extract_text_from_image_def preprocess_image_def imread_def os_remove_def raw_text_def
  str_join_def clean_text_def remove_non_printable_def printable_def strip_def isspace_def Let_def

section \<open>The Recognizer's output\<close>

lemma foldl_space_concat: "foldl (\<lambda>acc y. acc @ SPACE # y) x ys = x @ concat (map ((#) SPACE) ys)"
  by (induction ys arbitrary: x) simp_all

lemma joined_Cons: "joined_by_single_spaces (t # ts) = t @ concat (map ((#) SPACE) ts)"
  by (induction ts arbitrary: t) simp_all

lemma str_join_joined: "str_join [SPACE] ts = joined_by_single_spaces ts"
  by (cases ts) (simp_all add: str_join_def foldl_space_concat joined_Cons)

text \<open>
  Claim C9. For every recognition result, the string handed to the Normalizer, \<open>raw_text\<close>,
  is exactly the transcribed strings of the detections, in detection order, joined by single
  spaces; regions and confidences do not enter it. Whenever preprocessing returns an image
  and the engine returns a result for it, the pipeline returns the Normalizer's output on
  that string.
\<close>

theorem raw_text_joined:
  "raw_text result = joined_by_single_spaces (map (\<lambda>(region, text, confidence). text) result) \<and>
   (fst (preprocess_image X p w) = Inr preprocessed_img \<and>
    readtext X preprocessed_img = Inr result \<longrightarrow>
      fst (extract_text_from_image X p w) =
        Inr (clean_text (joined_by_single_spaces (map (\<lambda>(region, text, confidence). text) result))))"
proof -
  have r: "raw_text result = joined_by_single_spaces (map (\<lambda>(region, text, confidence). text) result)"
    by (simp add: raw_text_def str_join_joined case_prod_unfold)
  have "fst (extract_text_from_image X p w) = Inr (clean_text (raw_text result))"
    if "fst (preprocess_image X p w) = Inr preprocessed_img"
      and "readtext X preprocessed_img = Inr result"
    using that by (cases "preprocess_image X p w") (simp add: extract_text_from_image_def Let_def)
  with r show ?thesis by simp
qed

text \<open>
  Claim C9, witness: a file that decodes, and an engine that returns the detections
  \<open>HELLO\<close> and \<open>WORLD\<close>.
\<close>

theorem raw_text_joined_witness:
  "fst (preprocess_image working_libs (ustr ''a.png'')
          \<lparr>fs = [ustr ''a.png'' \<mapsto> [0x50, 10, 200, 30]], calls = []\<rparr>) = Inr [[0, 255, 0]] \<and>
   readtext working_libs [[0, 255, 0]] = Inr hello_world \<and>
   raw_text hello_world = ustr ''HELLO WORLD'' \<and>
   fst (extract_text_from_image working_libs (ustr ''a.png'')
          \<lparr>fs = [ustr ''a.png'' \<mapsto> [0x50, 10, 200, 30]], calls = []\<rparr>) = Inr (ustr ''HELLO WORLD'')"
proof -
  let ?w = "\<lparr>fs = [ustr ''a.png'' \<mapsto> [0x50, 10, 200, 30]], calls = []\<rparr>"
  have 1: "fst (preprocess_image working_libs (ustr ''a.png'') ?w) = Inr [[0, 255, 0]]"
    by (simp add: preprocess_image_def imread_def observe_def Let_def demo_defs)
  have 2: "readtext working_libs [[0, 255, 0]] = Inr hello_world"
    by (simp add: working_libs_def)
  have 3: "joined_by_single_spaces (map (\<lambda>(region, text, confidence). text) hello_world) =
     ustr ''HELLO WORLD''" by (simp add: demo_defs)
  have 4: "clean_text (ustr ''HELLO WORLD'') = ustr ''HELLO WORLD''"
    by (simp add: model_defs demo_defs)
  from raw_text_joined [where result = hello_world and w = ?w and p = "ustr ''a.png''"
      and X = working_libs and preprocessed_img = "[[0, 255, 0]]"] 1 2
  show ?thesis by (simp add: 3 4)
qed

section \<open>The Preprocessor\<close>









section \<open>allowed_file\<close>

lemma allowed_file_eq:
  "allowed_file X cfg fname =
     Inr (DOT \<in> set fname \<and>
          str_lower X (rev (takeWhile (\<lambda>c. c \<noteq> DOT) (rev fname))) \<in> ALLOWED_EXTENSIONS cfg)"
  by (simp add: allowed_file_def rsplit1_def getitem_def)

lemma after_last_dot:
  "DOT \<notin> set ext \<Longrightarrow> rev (takeWhile (\<lambda>c. c \<noteq> DOT) (rev (stem @ [DOT] @ ext))) = ext"
proof -
  assume "DOT \<notin> set ext"
  then have "takeWhile (\<lambda>c. c \<noteq> DOT) (rev ext @ DOT # rev stem) = rev ext"
    by (subst takeWhile_append2) auto
  then show ?thesis by simp
qed

lemma last_dot_split:
  assumes "DOT \<in> set s"
  shows "\<exists>stem. s = stem @ [DOT] @ rev (takeWhile (\<lambda>c. c \<noteq> DOT) (rev s))"
proof -
  let ?P = "\<lambda>c. c \<noteq> DOT"
  have ne: "dropWhile ?P (rev s) \<noteq> []" using assms by auto
  then have "hd (dropWhile ?P (rev s)) = DOT" using hd_dropWhile [of ?P "rev s"] by simp
  with ne have "dropWhile ?P (rev s) = DOT # tl (dropWhile ?P (rev s))"
    by (cases "dropWhile ?P (rev s)") simp_all
  then have "rev s = takeWhile ?P (rev s) @ DOT # tl (dropWhile ?P (rev s))"
    by (metis takeWhile_dropWhile_id)
  then have "rev (rev s) = rev (takeWhile ?P (rev s) @ DOT # tl (dropWhile ?P (rev s)))"
    by (rule arg_cong)
  then have "s = rev (tl (dropWhile ?P (rev s))) @ [DOT] @ rev (takeWhile ?P (rev s))"
    by simp
  then show ?thesis ..
qed

lemma no_dot_after_last_dot: "DOT \<notin> set (rev (takeWhile (\<lambda>c. c \<noteq> DOT) (rev s)))"
  by (auto dest: set_takeWhileD)

lemma allowed_file_iff:
  "allowed_file X cfg fname =
     Inr (\<exists>stem ext. fname = stem @ [DOT] @ ext \<and> DOT \<notin> set ext \<and>
                      str_lower X ext \<in> ALLOWED_EXTENSIONS cfg)"
proof -
  let ?e = "rev (takeWhile (\<lambda>c. c \<noteq> DOT) (rev fname))"
  have "(DOT \<in> set fname \<and> str_lower X ?e \<in> ALLOWED_EXTENSIONS cfg) \<longleftrightarrow>
        (\<exists>stem ext. fname = stem @ [DOT] @ ext \<and> DOT \<notin> set ext \<and>
                     str_lower X ext \<in> ALLOWED_EXTENSIONS cfg)"
  proof
    assume l: "DOT \<in> set fname \<and> str_lower X ?e \<in> ALLOWED_EXTENSIONS cfg"
    then obtain stem where "fname = stem @ [DOT] @ ?e" using last_dot_split by blast
    with l no_dot_after_last_dot [of fname] show "\<exists>stem ext. fname = stem @ [DOT] @ ext \<and> DOT \<notin> set ext \<and>
                     str_lower X ext \<in> ALLOWED_EXTENSIONS cfg" by blast
  next
    assume "\<exists>stem ext. fname = stem @ [DOT] @ ext \<and> DOT \<notin> set ext \<and>
                     str_lower X ext \<in> ALLOWED_EXTENSIONS cfg"
    then obtain stem ext where f: "fname = stem @ [DOT] @ ext" and d: "DOT \<notin> set ext"
      and a: "str_lower X ext \<in> ALLOWED_EXTENSIONS cfg" by blast
    from f d have "?e = ext" using after_last_dot by simp
    moreover from f have "DOT \<in> set fname" by simp
    ultimately show "DOT \<in> set fname \<and> str_lower X ?e \<in> ALLOWED_EXTENSIONS cfg" using a by simp
  qed
  then show ?thesis by (simp only: allowed_file_eq)
qed

text \<open>
  Claim C10. \<open>allowed_file\<close> returns a boolean for every filename and never raises: the
  index \<open>[1]\<close> is taken only of a two-item split. A filename with no \<open>.\<close> is rejected, and an
  upload with such a (non-empty) name gets the 400 response \<open>Unsupported file type\<close> while
  the world is left as it was.
\<close>

theorem allowed_file_total:
  "(\<exists>b. allowed_file X cfg fname = Inr b) \<and>
   (DOT \<notin> set fname \<longrightarrow> allowed_file X cfg fname = Inr False) \<and>
   (DOT \<notin> set fname \<and> fname \<noteq> [] \<and> files req (ustr ''file'') = Some file \<and>
    filename file = fname \<longrightarrow>
      extract_text X cfg req w =
        (Inr ([(ustr ''error'', ustr ''Unsupported file type'')], 400), w))"
proof -
  have t: "\<exists>b. allowed_file X cfg fname = Inr b" by (simp add: allowed_file_eq)
  have f: "allowed_file X cfg fname = Inr False" if "DOT \<notin> set fname"
    using that by (simp add: allowed_file_def)
  have "extract_text X cfg req w = (Inr ([(ustr ''error'', ustr ''Unsupported file type'')], 400), w)"
    if "DOT \<notin> set fname" and "fname \<noteq> []" and "files req (ustr ''file'') = Some file"
      and "filename file = fname"
    using f that by (simp add: extract_text_def)
  with t f show ?thesis by blast
qed

text \<open>
  Claim C10, witness: the upload \<open>README\<close>.
\<close>

theorem allowed_file_total_witness:
  "DOT \<notin> set (ustr ''README'') \<and>
   allowed_file working_libs default_config (ustr ''README'') = Inr False \<and>
   extract_text working_libs default_config (upload ''README'' [0x50, 10, 200, 30]) empty_world =
     (Inr ([(ustr ''error'', ustr ''Unsupported file type'')], 400), empty_world)"
proof -
  let ?file = "\<lparr>filename = ustr ''README'', content = [0x50, 10, 200, 30]\<rparr>"
  have d: "DOT \<notin> set (ustr ''README'')" by (simp add: ustr_def DOT_def)
  have n: "ustr ''README'' \<noteq> []" by (simp add: ustr_def)
  have h: "files (upload ''README'' [0x50, 10, 200, 30]) (ustr ''file'') = Some ?file"
    by (simp add: upload_def)
  have fn: "filename ?file = ustr ''README''" by simp
  from allowed_file_total [of working_libs default_config "ustr ''README''"
      "upload ''README'' [0x50, 10, 200, 30]" ?file empty_world] d n h fn
  show ?thesis by blast
qed

text \<open>
  Claim C5, counterexample. With \<open>ALLOWED_EXTENSIONS=JPG,PNG\<close> in the environment the
  allow-set holds \<open>JPG\<close>, and the filename \<open>scan.JPG\<close>, whose extension is that very entry,
  is rejected: only the filename's extension is lower-cased, the configured entries are
  compared as written.
\<close>

theorem upper_case_allow_set_counterexample:
  "ustr ''JPG'' \<in> ALLOWED_EXTENSIONS upper_case_config \<and>
   allowed_file working_libs upper_case_config (ustr ''scan'' @ [DOT] @ ustr ''JPG'') = Inr False"
  by (simp add: allowed_file_eq upper_case_config_def demo_defs)

text \<open>
  Claim C5, amended. Extension matching is case-insensitive in the filename: for every entry
  \<open>e\<close> of the allow-set that is written in lower case (\<open>e.lower() == e\<close>), a filename whose
  substring after the last \<open>.\<close> equals \<open>e\<close> under case-insensitive comparison is accepted by
  \<open>allowed_file\<close>, whatever the letter case used in the filename.
\<close>

theorem lower_case_extension_accepted:
  assumes "e \<in> ALLOWED_EXTENSIONS cfg" and "str_lower X e = e"
    and "DOT \<notin> set ext" and "str_lower X ext = str_lower X e"
  shows "allowed_file X cfg (stem @ [DOT] @ ext) = Inr True"
proof -
  have "str_lower X ext \<in> ALLOWED_EXTENSIONS cfg" using assms(1,2,4) by simp
  with assms(3) have "\<exists>s x. stem @ [DOT] @ ext = s @ [DOT] @ x \<and> DOT \<notin> set x \<and>
      str_lower X x \<in> ALLOWED_EXTENSIONS cfg" by blast
  then show ?thesis by (simp only: allowed_file_iff)
qed

text \<open>
  Claim C5, witness: \<open>note.JPG\<close> under the default allow-set \<open>jpg,jpeg,png\<close>.
\<close>

theorem lower_case_extension_accepted_witness:
  "ustr ''jpg'' \<in> ALLOWED_EXTENSIONS default_config \<and>
   str_lower working_libs (ustr ''jpg'') = ustr ''jpg'' \<and>
   DOT \<notin> set (ustr ''JPG'') \<and>
   str_lower working_libs (ustr ''JPG'') = str_lower working_libs (ustr ''jpg'') \<and>
   allowed_file working_libs default_config (ustr ''note'' @ [DOT] @ ustr ''JPG'') = Inr True"
proof -
  have 1: "ustr ''jpg'' \<in> ALLOWED_EXTENSIONS default_config" by (simp add: demo_defs)
  have 2: "str_lower working_libs (ustr ''jpg'') = ustr ''jpg''" by (simp add: demo_defs)
  have 3: "DOT \<notin> set (ustr ''JPG'')" by (simp add: demo_defs)
  have 4: "str_lower working_libs (ustr ''JPG'') = str_lower working_libs (ustr ''jpg'')"
    by (simp add: demo_defs)
  from lower_case_extension_accepted [OF 1 2 3 4, of "ustr ''note''"] 1 2 3 4
  show ?thesis by blast
qed

section \<open>The request handler\<close>

lemma extract_text_rejected:
  assumes "files req (ustr ''file'') = Some file" and "allowed_file X cfg (filename file) = Inr False"
  shows "extract_text X cfg req w =
           (Inr ([(ustr ''error'',
                   if filename file = [] then ustr ''No selected file''
                   else ustr ''Unsupported file type'')], 400), w)"
  using assms by (simp add: extract_text_def)

text \<open>
  Claim C4. For every request without a \<open>file\<close> field the handler returns status 400 with
  the body \<open>{"error": "No file part in request"}\<close>, and the world is unchanged: nothing is
  written to the upload directory and no call is made.
\<close>

theorem missing_file_field:
  assumes "files req (ustr ''file'') = None"
  shows "extract_text X cfg req w =
           (Inr ([(ustr ''error'', ustr ''No file part in request'')], 400), w)"
  using assms by (simp add: extract_text_def)

text \<open>
  Claim C4, witness: a request with no file fields at all.
\<close>

theorem missing_file_field_witness:
  "files no_file_request (ustr ''file'') = None \<and>
   extract_text working_libs default_config no_file_request empty_world =
     (Inr ([(ustr ''error'', ustr ''No file part in request'')], 400), empty_world)"
proof -
  have h: "files no_file_request (ustr ''file'') = None" by (simp add: no_file_request_def)
  show ?thesis using h missing_file_field [OF h, of working_libs default_config empty_world] by simp
qed

text \<open>
  Claim C3. For every request whose file's extension, lower-cased, is outside the allow-set
  (the filename is not of the form \<open>stem.ext\<close> with \<open>ext\<close> free of dots and its lower-casing
  in the allow-set), the handler returns status 400 and leaves the world as it was: nothing
  is saved, \<open>preprocess_image\<close> is not reached and the engine is not called. Conversely,
  whenever the handler makes any call at all for an upload (saving it is the first, decoding
  it in \<open>preprocess_image\<close> the second), that upload's extension is in the allow-set.
\<close>

theorem disallowed_extension_rejected:
  assumes "files req (ustr ''file'') = Some file"
  shows "(\<not> (\<exists>stem ext. filename file = stem @ [DOT] @ ext \<and> DOT \<notin> set ext \<and>
                         str_lower X ext \<in> ALLOWED_EXTENSIONS cfg) \<longrightarrow>
          extract_text X cfg req w =
            (Inr ([(ustr ''error'',
                    if filename file = [] then ustr ''No selected file''
                    else ustr ''Unsupported file type'')], 400), w)) \<and>
         (calls (snd (extract_text X cfg req w)) \<noteq> calls w \<longrightarrow>
          (\<exists>stem ext. filename file = stem @ [DOT] @ ext \<and> DOT \<notin> set ext \<and>
                       str_lower X ext \<in> ALLOWED_EXTENSIONS cfg))"
proof -
  let ?ok = "\<exists>stem ext. filename file = stem @ [DOT] @ ext \<and> DOT \<notin> set ext \<and>
                         str_lower X ext \<in> ALLOWED_EXTENSIONS cfg"
  let ?rejection = "(Inr ([(ustr ''error'',
                    if filename file = [] then ustr ''No selected file''
                    else ustr ''Unsupported file type'')], 400), w)"
  have rej: "extract_text X cfg req w = ?rejection" if "\<not> ?ok"
  proof -
    from that have "allowed_file X cfg (filename file) = Inr False"
      by (simp only: allowed_file_iff)
    from extract_text_rejected [OF assms this] show ?thesis .
  qed
  have "?ok" if c: "calls (snd (extract_text X cfg req w)) \<noteq> calls w"
  proof (rule ccontr)
    assume "\<not> ?ok"
    from rej [OF this] c show False by simp
  qed
  with rej show ?thesis by blast
qed

text \<open>
  Claim C3, witness: \<open>data.txt\<close> is rejected with no call made; \<open>note.PNG\<close> makes calls,
  and its extension is in the allow-set.
\<close>

theorem disallowed_extension_rejected_witness:
  "files (upload ''data.txt'' [0x50, 10, 200, 30]) (ustr ''file'') =
     Some \<lparr>filename = ustr ''data.txt'', content = [0x50, 10, 200, 30]\<rparr> \<and>
   allowed_file working_libs default_config (ustr ''data.txt'') = Inr False \<and>
   extract_text working_libs default_config (upload ''data.txt'' [0x50, 10, 200, 30]) empty_world =
     (Inr ([(ustr ''error'', ustr ''Unsupported file type'')], 400), empty_world) \<and>
   files (upload ''note.PNG'' [0x50, 10, 200, 30]) (ustr ''file'') =
     Some \<lparr>filename = ustr ''note.PNG'', content = [0x50, 10, 200, 30]\<rparr> \<and>
   calls (snd (extract_text working_libs default_config
                 (upload ''note.PNG'' [0x50, 10, 200, 30]) empty_world)) \<noteq> calls empty_world \<and>
   (\<exists>stem ext. ustr ''note.PNG'' = stem @ [DOT] @ ext \<and> DOT \<notin> set ext \<and>
                str_lower working_libs ext \<in> ALLOWED_EXTENSIONS default_config)"
proof -
  let ?txt = "\<lparr>filename = ustr ''data.txt'', content = [0x50, 10, 200, 30]\<rparr>"
  let ?png = "\<lparr>filename = ustr ''note.PNG'', content = [0x50, 10, 200, 30]\<rparr>"
  have h: "files (upload ''data.txt'' [0x50, 10, 200, 30]) (ustr ''file'') = Some ?txt"
    by (simp add: upload_def)
  have a: "allowed_file working_libs default_config (ustr ''data.txt'') = Inr False"
    by (simp add: allowed_file_eq demo_defs)
  then have "Inr (\<exists>stem ext. ustr ''data.txt'' = stem @ [DOT] @ ext \<and> DOT \<notin> set ext \<and>
      str_lower working_libs ext \<in> ALLOWED_EXTENSIONS default_config) = (Inr False :: exn + bool)"
    by (simp only: allowed_file_iff)
  then have n: "\<not> (\<exists>stem ext. filename ?txt = stem @ [DOT] @ ext \<and> DOT \<notin> set ext \<and>
      str_lower working_libs ext \<in> ALLOWED_EXTENSIONS default_config)"
    by simp
  have ne: "filename ?txt \<noteq> []" by (simp add: ustr_def)
  from disallowed_extension_rejected [OF h, of working_libs default_config empty_world] n ne
  have e: "extract_text working_libs default_config (upload ''data.txt'' [0x50, 10, 200, 30]) empty_world =
     (Inr ([(ustr ''error'', ustr ''Unsupported file type'')], 400), empty_world)"
    by simp
  have g: "files (upload ''note.PNG'' [0x50, 10, 200, 30]) (ustr ''file'') = Some ?png"
    by (simp add: upload_def)
  have c: "calls (snd (extract_text working_libs default_config
                 (upload ''note.PNG'' [0x50, 10, 200, 30]) empty_world)) \<noteq> calls empty_world"
    by (simp add: model_defs demo_defs)
  from disallowed_extension_rejected [OF g, of working_libs default_config empty_world] c
  have "\<exists>stem ext. ustr ''note.PNG'' = stem @ [DOT] @ ext \<and> DOT \<notin> set ext \<and>
                str_lower working_libs ext \<in> ALLOWED_EXTENSIONS default_config"
    by simp
  with h a e g c show ?thesis by blast
qed


lemma os_remove_removes:
  assumes "os_remove X path w = (Inr u, w')"
  shows "fs w' path = None"
  using assms by (auto simp: os_remove_def Let_def split: option.splits)

text \<open>
  Claim C1, counterexample. The upload \<open>note.PNG\<close> is accepted and saved, its bytes are not an
  image, \<open>preprocess_image\<close> raises, and the exception leaves the handler before
  \<open>os.remove\<close>: the temporary file is still in the upload directory afterwards.
\<close>

theorem temp_file_left_after_failure_counterexample:
  "files (upload ''note.PNG'' [0, 1, 2]) (ustr ''file'') =
     Some \<lparr>filename = ustr ''note.PNG'', content = [0, 1, 2]\<rparr> \<and>
   allowed_file working_libs default_config (ustr ''note.PNG'') = Inr True \<and>
   fst (extract_text working_libs default_config (upload ''note.PNG'' [0, 1, 2]) empty_world) =
     Inl (FileNotFoundError (ustr ''Image not found: app/uploads/note.PNG'')) \<and>
   fs (snd (extract_text working_libs default_config (upload ''note.PNG'' [0, 1, 2]) empty_world))
      (ustr ''app/uploads/note.PNG'') = Some [0, 1, 2]"
  by (simp add: model_defs demo_defs)

text \<open>
  Claim C1, amended. For every accepted request (a \<open>file\<close> field with a non-empty filename
  and an allowed extension) to which the handler returns a response, that is, when neither
  the save nor preprocessing, recognition or the removal raises, the response has status
  200 and the temporary file written to the upload directory during processing is absent
  from it when the response is returned.
\<close>

theorem temp_file_removed_on_success:
  assumes "files req (ustr ''file'') = Some file" and "filename file \<noteq> []"
    and "allowed_file X cfg (filename file) = Inr True"
    and "fst (extract_text X cfg req w) = Inr resp"
  shows "snd resp = 200 \<and>
         fs (snd (extract_text X cfg req w))
            (path_join (UPLOAD_FOLDER cfg) (secure_filename X (filename file))) = None"
proof -
  let ?p = "path_join (UPLOAD_FOLDER cfg) (secure_filename X (filename file))"
  obtain s w1 where sv: "save X file ?p w = (s, w1)" by (cases "save X file ?p w")
  obtain t w2 where ex: "extract_text_from_image X ?p w1 = (t, w2)"
    by (cases "extract_text_from_image X ?p w1")
  obtain r w3 where rm: "os_remove X ?p w2 = (r, w3)" by (cases "os_remove X ?p w2")
  from assms sv obtain u where s: "s = Inr u"
    by (cases s) (simp_all add: extract_text_def Let_def)
  from assms sv s ex obtain extracted_text where t: "t = Inr extracted_text"
    by (cases t) (simp_all add: extract_text_def Let_def)
  from assms sv s ex t rm obtain v where r: "r = Inr v"
    by (cases r) (simp_all add: extract_text_def Let_def)
  from assms(1-3) sv s ex t rm r
  have e: "extract_text X cfg req w = (Inr ([(ustr ''extracted_text'', extracted_text)], 200), w3)"
    by (simp add: extract_text_def Let_def)
  from rm r have "fs w3 ?p = None" by (simp add: os_remove_removes)
  with e assms(4) show ?thesis by auto
qed

text \<open>
  Claim C1, witness: \<open>note.PNG\<close> with bytes that decode, and a working engine.
\<close>

theorem temp_file_removed_on_success_witness:
  "files (upload ''note.PNG'' [0x50, 10, 200, 30]) (ustr ''file'') =
     Some \<lparr>filename = ustr ''note.PNG'', content = [0x50, 10, 200, 30]\<rparr> \<and>
   allowed_file working_libs default_config (ustr ''note.PNG'') = Inr True \<and>
   fst (extract_text working_libs default_config (upload ''note.PNG'' [0x50, 10, 200, 30]) empty_world) =
     Inr ([(ustr ''extracted_text'', ustr ''HELLO WORLD'')], 200) \<and>
   fs (snd (extract_text working_libs default_config (upload ''note.PNG'' [0x50, 10, 200, 30]) empty_world))
      (ustr ''app/uploads/note.PNG'') = None"
proof -
  let ?file = "\<lparr>filename = ustr ''note.PNG'', content = [0x50, 10, 200, 30]\<rparr>"
  let ?req = "upload ''note.PNG'' [0x50, 10, 200, 30]"
  have 1: "files ?req (ustr ''file'') = Some ?file"
    by (simp add: upload_def)
  have 2: "filename ?file \<noteq> []" by (simp add: ustr_def)
  have 3: "allowed_file working_libs default_config (filename ?file) = Inr True"
    by (simp add: allowed_file_eq demo_defs)
  have 4: "fst (extract_text working_libs default_config ?req empty_world) =
     Inr ([(ustr ''extracted_text'', ustr ''HELLO WORLD'')], 200)"
    by (simp add: model_defs demo_defs)
  have 5: "path_join (UPLOAD_FOLDER default_config) (secure_filename working_libs (ustr ''note.PNG'')) =
     ustr ''app/uploads/note.PNG''" by (simp add: path_join_def demo_defs)
  from temp_file_removed_on_success [OF 1 2 3 4] 1 3 4
  show ?thesis by (simp add: 5)
qed

text \<open>
  When the save raises, at \<open>file.save(file_path)\<close>, its exception is the outcome of the
  handler and nothing is decoded.
\<close>

lemma extract_text_save_fault:
  assumes "files req (ustr ''file'') = Some file" and "filename file \<noteq> []"
    and "allowed_file X cfg (filename file) = Inr True"
    and "save X file (path_join (UPLOAD_FOLDER cfg) (secure_filename X (filename file))) w = (Inl e, w1)"
  shows "extract_text X cfg req w = (Inl e, w1)"
  using assms by (simp add: extract_text_def Let_def)

text \<open>
  When the save and preprocessing go through and the engine raises, the exception of the
  engine is the outcome of the handler.
\<close>

lemma extract_text_engine_fault:
  assumes "files req (ustr ''file'') = Some file" and "filename file \<noteq> []"
    and "allowed_file X cfg (filename file) = Inr True"
    and "save X file (path_join (UPLOAD_FOLDER cfg) (secure_filename X (filename file))) w = (Inr u, w1)"
    and "preprocess_image X (path_join (UPLOAD_FOLDER cfg) (secure_filename X (filename file))) w1 =
           (Inr preprocessed_img, w2)"
    and "readtext X preprocessed_img = Inl e"
  shows "extract_text X cfg req w = (Inl e, w2\<lparr>calls := calls w2 @ [Readtext preprocessed_img]\<rparr>)"
  using assms by (simp add: extract_text_def extract_text_from_image_def Let_def)

text \<open>
  Claim C7, at the failing input: the accepted upload \<open>note.PNG\<close>, saved and decoded, with an
  engine that raises. The claim asks for a response of the 500 class with a structured
  error; the outcome of the handler is the engine's exception itself and no response, since
  neither \<open>extract_text\<close> nor \<open>extract_text_from_image\<close> has a \<open>try\<close>. The engine has been
  called once, and the calls end there.
\<close>

theorem engine_fault_leaves_handler:
  "files (upload ''note.PNG'' [0x50, 10, 200, 30]) (ustr ''file'') =
     Some \<lparr>filename = ustr ''note.PNG'', content = [0x50, 10, 200, 30]\<rparr> \<and>
   allowed_file failing_engine default_config (ustr ''note.PNG'') = Inr True \<and>
   readtext failing_engine [[0, 255, 0]] = Inl (EngineError (ustr ''CUDA out of memory'')) \<and>
   fst (extract_text failing_engine default_config (upload ''note.PNG'' [0x50, 10, 200, 30]) empty_world) =
     Inl (EngineError (ustr ''CUDA out of memory'')) \<and>
   calls (snd (extract_text failing_engine default_config (upload ''note.PNG'' [0x50, 10, 200, 30]) empty_world)) =
     [FileSave (ustr ''app/uploads/note.PNG''), Imread (ustr ''app/uploads/note.PNG''),
      Readtext [[0, 255, 0]]]"
  by (simp add: model_defs failing_engine_def demo_defs)

end
